theory Spec2Isabelle
  imports Complex_Main "HOL-Library.AList"
begin

section \<open>Python values shared by the models\<close>

text \<open>
  Exceptions are values.  A raise inside one of the callables handed to the library
  (a guard, a saga action, a wrapped function \<dots>) carries a payload of type \<open>'x\<close>;
  the library's own exception classes are the other constructors.
\<close>

fun str_nat :: "nat \<Rightarrow> string" where
  "str_nat n =
     (if n < 10 then [''0123456789'' ! n]
      else str_nat (n div 10) @ [''0123456789'' ! (n mod 10)])"

declare str_nat.simps [simp del]

text \<open>
  A Python \<open>dict\<close> keeps insertion order and assigning to a present key keeps its
  position: an association list with distinct keys, written with \<open>AList.update\<close>.
\<close>

definition dict_contains :: "('k \<times> 'v) list \<Rightarrow> 'k \<Rightarrow> bool" where
  "dict_contains d k = (k \<in> fst ` set d)"

definition dict_values :: "('k \<times> 'v) list \<Rightarrow> 'v list" where
  "dict_values d = map snd d"

section \<open>guardrails/engine.py\<close>

record 'm GuardResult =
  passed :: bool
  message :: "string option"
  metadata :: 'm

text \<open>
  \<open>BaseGuard\<close>: a name and the \<open>validate(content, context)\<close> method, which returns
  a \<open>GuardResult\<close> or raises.
\<close>

record ('c, 'm, 'x) guard =
  name :: string
  validate :: "string \<Rightarrow> 'c \<Rightarrow> 'x + 'm GuardResult"

text \<open>
  The metadata of a \<open>GuardrailViolation\<close> is either the failing guard's own metadata, or
  (for the aggregate) the list under the key \<open>"violations"\<close> of the records
  \<open>{"guard", "message", "metadata"}\<close>.
\<close>

datatype 'm violation_metadata =
    Own 'm
  | Violations "(string \<times> string \<times> 'm) list"

datatype ('m, 'x) engine_error =
    GuardrailViolation string string "'m violation_metadata"
  | KeyError string
  | GuardRaised 'x

record GuardrailConfig =
  fail_fast :: bool
  log_violations :: bool

definition GuardrailConfig_default :: GuardrailConfig where
  "GuardrailConfig_default = \<lparr>fail_fast = True, log_violations = True\<rparr>"

text \<open>
  The engine.  \<open>validate_log\<close> is not a field of the Python object: it records, in order,
  the name of every guard whose \<open>validate\<close> has been awaited, so that "this guard was
  never evaluated" can be stated.
\<close>

record ('c, 'm, 'x) GuardrailEngine =
  config :: GuardrailConfig
  input_guards :: "(string \<times> ('c, 'm, 'x) guard) list"
  output_guards :: "(string \<times> ('c, 'm, 'x) guard) list"
  action_guards :: "(string \<times> ('c, 'm, 'x) guard) list"
  total_validations :: nat
  total_violations :: nat
  validate_log :: "string list"

definition GuardrailEngine_init :: "GuardrailConfig option \<Rightarrow> ('c, 'm, 'x) GuardrailEngine" where
  "GuardrailEngine_init cfg =
     \<lparr>config = (case cfg of None \<Rightarrow> GuardrailConfig_default | Some c \<Rightarrow> c),
      input_guards = [], output_guards = [], action_guards = [],
      total_validations = 0, total_violations = 0, validate_log = []\<rparr>"


definition register_output_guard ::
  "('c, 'm, 'x) GuardrailEngine \<Rightarrow> ('c, 'm, 'x) guard \<Rightarrow> ('c, 'm, 'x) GuardrailEngine" where
  "register_output_guard e g = e\<lparr>output_guards := AList.update (name g) g (output_guards e)\<rparr>"

definition register_action_guard ::
  "('c, 'm, 'x) GuardrailEngine \<Rightarrow> ('c, 'm, 'x) guard \<Rightarrow> ('c, 'm, 'x) GuardrailEngine" where
  "register_action_guard e g = e\<lparr>action_guards := AList.update (name g) g (action_guards e)\<rparr>"

text \<open>\<open>guard_dict[name]\<close>: raises \<open>KeyError\<close> on a missing key.\<close>

definition dict_getitem ::
  "(string \<times> 'v) list \<Rightarrow> string \<Rightarrow> ('m, 'x) engine_error + 'v" where
  "dict_getitem d k = (case map_of d k of None \<Rightarrow> Inl (KeyError k) | Some v \<Rightarrow> Inr v)"

text \<open>
  The comprehension \<open>[guard_dict[name] for name in guard_names if name in guard_dict]\<close>.
\<close>

fun select_named ::
  "(string \<times> 'v) list \<Rightarrow> string list \<Rightarrow> ('m, 'x) engine_error + 'v list" where
  "select_named d [] = Inr []"
| "select_named d (n # ns) =
     (if dict_contains d n then
        (case dict_getitem d n of
           Inl err \<Rightarrow> Inl err
         | Inr g \<Rightarrow>
             (case select_named d ns of
                Inl err \<Rightarrow> Inl err
              | Inr gs \<Rightarrow> Inr (g # gs)))
      else select_named d ns)"

definition select_guards ::
  "(string \<times> 'v) list \<Rightarrow> string list option \<Rightarrow> ('m, 'x) engine_error + 'v list" where
  "select_guards guard_dict guard_names =
     (case guard_names of
        None \<Rightarrow> Inr (dict_values guard_dict)
      | Some names \<Rightarrow> select_named guard_dict names)"

text \<open>\<open>result.message or "Validation failed"\<close>: \<open>None\<close> and the empty string are falsy.\<close>

definition message_or_default :: "string option \<Rightarrow> string" where
  "message_or_default m =
     (case m of None \<Rightarrow> ''Validation failed''
      | Some s \<Rightarrow> if s = [] then ''Validation failed'' else s)"

text \<open>
  The \<open>for guard in guards\<close> loop of \<open>_run_guards\<close>, with the list \<open>violations\<close> as
  accumulator.  It returns the violations collected, or the exception that left the loop,
  together with the engine as the loop left it.
\<close>

fun guard_loop ::
  "('c, 'm, 'x) GuardrailEngine \<Rightarrow> ('c, 'm, 'x) guard list \<Rightarrow> string \<Rightarrow> 'c \<Rightarrow>
   (string \<times> string \<times> 'm) list \<Rightarrow>
   (('m, 'x) engine_error + (string \<times> string \<times> 'm) list) \<times> ('c, 'm, 'x) GuardrailEngine" where
  "guard_loop e [] content ctx violations = (Inr violations, e)"
| "guard_loop e (g # gs) content ctx violations =
     (let e1 = e\<lparr>validate_log := validate_log e @ [name g]\<rparr> in
      case validate g content ctx of
        Inl x \<Rightarrow> (Inl (GuardRaised x), e1)
      | Inr result \<Rightarrow>
          if \<not> passed result then
            (let e2 = e1\<lparr>total_violations := total_violations e1 + 1\<rparr>;
                 msg = message_or_default (message result) in
             if fail_fast (config e2)
             then (Inl (GuardrailViolation (name g) msg (Own (metadata result))), e2)
             else guard_loop e2 gs content ctx (violations @ [(name g, msg, metadata result)]))
          else guard_loop e1 gs content ctx violations)"

definition run_guards ::
  "('c, 'm, 'x) GuardrailEngine \<Rightarrow> ('c, 'm, 'x) guard list \<Rightarrow> string \<Rightarrow> 'c \<Rightarrow>
   (('m, 'x) engine_error + string) \<times> ('c, 'm, 'x) GuardrailEngine" where
  "run_guards e guards content ctx =
     (case guard_loop (e\<lparr>total_validations := total_validations e + 1\<rparr>) guards content ctx [] of
        (Inl err, e') \<Rightarrow> (Inl err, e')
      | (Inr violations, e') \<Rightarrow>
          if violations \<noteq> [] then
            (Inl (GuardrailViolation ''multiple''
                    (str_nat (length violations) @ '' guard(s) failed'')
                    (Violations violations)), e')
          else (Inr content, e'))"

definition validate_with ::
  "(string \<times> ('c, 'm, 'x) guard) list \<Rightarrow> ('c, 'm, 'x) GuardrailEngine \<Rightarrow> string \<Rightarrow>
   string list option \<Rightarrow> 'c \<Rightarrow>
   (('m, 'x) engine_error + string) \<times> ('c, 'm, 'x) GuardrailEngine" where
  "validate_with guard_dict e content guard_names ctx =
     (case select_guards guard_dict guard_names of
        Inl err \<Rightarrow> (Inl err, e)
      | Inr guards_to_run \<Rightarrow> run_guards e guards_to_run content ctx)"


definition validate_output ::
  "('c, 'm, 'x) GuardrailEngine \<Rightarrow> string \<Rightarrow> string list option \<Rightarrow> 'c \<Rightarrow>
   (('m, 'x) engine_error + string) \<times> ('c, 'm, 'x) GuardrailEngine" where
  "validate_output e content guard_names ctx =
     validate_with (output_guards e) e content guard_names ctx"


section \<open>orchestration/saga.py\<close>

text \<open>
  An exception raised by a user callable is identified with its text \<open>str(e)\<close>, which
  is all the saga reads of it.
\<close>

type_synonym exn = string

definition squote :: string where
  "squote = [CHR 0x27]"

datatype SagaStepStatus =
    Step_PENDING | Step_RUNNING | Step_COMPLETED | Step_FAILED
  | Step_COMPENSATING | Step_COMPENSATED

datatype SagaStatus =
    Saga_PENDING | Saga_RUNNING | Saga_COMPLETED | Saga_FAILED
  | Saga_COMPENSATING | Saga_COMPENSATED

text \<open>
  The forward action and the compensation are coroutines with side effects: each takes the
  saga's context and the outside world \<open>'w\<close>, and returns its result or the exception it
  raised, with the world as it left it.  The timestamps \<open>started_at\<close> and
  \<open>completed_at\<close> are clock readings that no branch depends on; they are left out.
\<close>

record ('r, 'w) SagaStep =
  step_name :: string
  action :: "(string \<rightharpoonup> 'r) \<Rightarrow> 'w \<Rightarrow> (exn + 'r) \<times> 'w"
  compensation :: "(string \<rightharpoonup> 'r) \<Rightarrow> 'w \<Rightarrow> (exn + unit) \<times> 'w"
  step_status :: SagaStepStatus
  step_result :: "'r option"
  step_error :: "string option"

record ('r, 'w) Saga =
  saga_name :: string
  steps :: "('r, 'w) SagaStep list"
  saga_status :: SagaStatus
  saga_context :: "string \<rightharpoonup> 'r"
  saga_error :: "string option"

datatype saga_exception =
    SagaFailedError string exn
  | SagaCompensationError string exn

text \<open>
  The calls the saga makes to the callables of its steps, in order, each with the exception
  it raised if any.  A step is named by its position in \<open>self.steps\<close>.
\<close>

datatype saga_call = ActionCall nat | CompensationCall nat

type_synonym call_log = "(saga_call \<times> exn option) list"



text \<open>
  Steps are objects shared between \<open>self.steps\<close> and \<open>completed_steps\<close>; an
  assignment to a field of step \<open>i\<close> is an update of \<open>self.steps\<close> at \<open>i\<close>.
\<close>

definition set_step ::
  "('r, 'w) Saga \<Rightarrow> nat \<Rightarrow> (('r, 'w) SagaStep \<Rightarrow> ('r, 'w) SagaStep) \<Rightarrow> ('r, 'w) Saga" where
  "set_step sg i f = sg\<lparr>steps := (steps sg)[i := f (steps sg ! i)]\<rparr>"

text \<open>The loop of \<open>_compensate\<close> over \<open>reversed(completed_steps)\<close>.\<close>

fun compensate_loop ::
  "('r, 'w) Saga \<Rightarrow> nat list \<Rightarrow> 'w \<Rightarrow> call_log \<Rightarrow>
   (saga_exception + unit) \<times> ('r, 'w) Saga \<times> 'w \<times> call_log" where
  "compensate_loop sg [] w lg = (Inr (), sg, w, lg)"
| "compensate_loop sg (i # rest) w lg =
     (let sg1 = set_step sg i (\<lambda>s. s\<lparr>step_status := Step_COMPENSATING\<rparr>) in
      case compensation (steps sg1 ! i) (saga_context sg1) w of
        (Inr u, w') \<Rightarrow>
          compensate_loop (set_step sg1 i (\<lambda>s. s\<lparr>step_status := Step_COMPENSATED\<rparr>))
            rest w' (lg @ [(CompensationCall i, None)])
      | (Inl e, w') \<Rightarrow>
          (Inl (SagaCompensationError
                  (''Failed to compensate step '' @ squote @ step_name (steps sg1 ! i) @ squote
                     @ '': '' @ e) e),
           set_step sg1 i (\<lambda>s. s\<lparr>step_error := Some (''Compensation failed: '' @ e)\<rparr>),
           w', lg @ [(CompensationCall i, Some e)]))"

definition compensate ::
  "('r, 'w) Saga \<Rightarrow> nat list \<Rightarrow> 'w \<Rightarrow> call_log \<Rightarrow>
   (saga_exception + unit) \<times> ('r, 'w) Saga \<times> 'w \<times> call_log" where
  "compensate sg completed_steps w lg =
     (case compensate_loop (sg\<lparr>saga_status := Saga_COMPENSATING\<rparr>) (rev completed_steps) w lg of
        (Inl err, sg', w', lg') \<Rightarrow> (Inl err, sg', w', lg')
      | (Inr u, sg', w', lg') \<Rightarrow> (Inr (), sg'\<lparr>saga_status := Saga_COMPENSATED\<rparr>, w', lg'))"





section \<open>resilience/retry.py\<close>















section \<open>resilience/circuit\_breaker.py\<close>

datatype CircuitState = CLOSED | OPEN | HALF_OPEN

text \<open>
  Time: a \<open>datetime\<close> is its number of seconds since the epoch and a \<open>timedelta\<close> a number
  of seconds, both rationals (the source counts whole microseconds).
  \<open>timeout_seconds\<close> stands for \<open>timedelta(seconds=self.config.timeout_seconds)\<close>.
  \<open>expected_exceptions\<close> is the tuple of classes of the \<open>except\<close> clause, as a predicate.
\<close>

record 'x CircuitBreakerConfig =
  failure_threshold :: int
  success_threshold :: int
  timeout_seconds :: rat
  expected_exceptions :: "'x \<Rightarrow> bool"

definition CircuitBreakerConfig_default :: "'x CircuitBreakerConfig" where
  "CircuitBreakerConfig_default =
     \<lparr>failure_threshold = 5, success_threshold = 2, timeout_seconds = 60,
      expected_exceptions = (\<lambda>e. True)\<rparr>"

record 'x CircuitBreaker =
  cb_name :: string
  cb_config :: "'x CircuitBreakerConfig"
  cb_state :: CircuitState
  failure_count :: int
  success_count :: int
  last_failure_time :: "rat option"
  last_state_change :: rat
  cb_total_calls :: int
  cb_total_failures :: int
  cb_total_successes :: int
  cb_total_rejected :: int

text \<open>
  \<open>CircuitBreakerOpenError\<close> with the breaker's name and the last failure time its
  message is formatted from; \<open>Raised\<close> is the exception of the wrapped function, re-raised.
\<close>

datatype 'x breaker_error =
    CircuitBreakerOpenError string "rat option"
  | Raised 'x

text \<open>
  The clock is the stream of the readings that the successive calls of
  \<open>datetime.utcnow()\<close> return.
\<close>

type_synonym clock = "nat \<Rightarrow> rat"

definition utcnow :: "clock \<Rightarrow> rat \<times> clock" where
  "utcnow clk = (clk 0, \<lambda>n. clk (Suc n))"

definition CircuitBreaker_init ::
  "string \<Rightarrow> 'x CircuitBreakerConfig \<Rightarrow> clock \<Rightarrow> 'x CircuitBreaker \<times> clock" where
  "CircuitBreaker_init n cfg clk =
     (case utcnow clk of
        (now, clk') \<Rightarrow>
          (\<lparr>cb_name = n, cb_config = cfg, cb_state = CLOSED, failure_count = 0,
            success_count = 0, last_failure_time = None, last_state_change = now,
            cb_total_calls = 0, cb_total_failures = 0, cb_total_successes = 0,
            cb_total_rejected = 0\<rparr>, clk'))"

definition should_attempt_reset :: "'x CircuitBreaker \<Rightarrow> clock \<Rightarrow> bool \<times> clock" where
  "should_attempt_reset cb clk =
     (case last_failure_time cb of
        None \<Rightarrow> (True, clk)
      | Some t \<Rightarrow>
          (case utcnow clk of
             (now, clk') \<Rightarrow> (now - t \<ge> timeout_seconds (cb_config cb), clk')))"

definition transition_to_open :: "'x CircuitBreaker \<Rightarrow> clock \<Rightarrow> 'x CircuitBreaker \<times> clock" where
  "transition_to_open cb clk =
     (case utcnow clk of
        (now, clk') \<Rightarrow>
          (cb\<lparr>cb_state := OPEN, last_state_change := now, success_count := 0\<rparr>, clk'))"

definition transition_to_half_open ::
  "'x CircuitBreaker \<Rightarrow> clock \<Rightarrow> 'x CircuitBreaker \<times> clock" where
  "transition_to_half_open cb clk =
     (case utcnow clk of
        (now, clk') \<Rightarrow>
          (cb\<lparr>cb_state := HALF_OPEN, last_state_change := now, failure_count := 0,
              success_count := 0\<rparr>, clk'))"

definition transition_to_closed ::
  "'x CircuitBreaker \<Rightarrow> clock \<Rightarrow> 'x CircuitBreaker \<times> clock" where
  "transition_to_closed cb clk =
     (case utcnow clk of
        (now, clk') \<Rightarrow>
          (cb\<lparr>cb_state := CLOSED, last_state_change := now, failure_count := 0,
              success_count := 0\<rparr>, clk'))"

definition on_success :: "'x CircuitBreaker \<Rightarrow> clock \<Rightarrow> 'x CircuitBreaker \<times> clock" where
  "on_success cb clk =
     (let cb1 = cb\<lparr>cb_total_successes := cb_total_successes cb + 1, failure_count := 0,
                    success_count := success_count cb + 1\<rparr>
      in if cb_state cb1 = HALF_OPEN then
           (if success_count cb1 \<ge> success_threshold (cb_config cb1)
            then transition_to_closed cb1 clk else (cb1, clk))
         else (cb1, clk))"

definition on_failure :: "'x CircuitBreaker \<Rightarrow> clock \<Rightarrow> 'x CircuitBreaker \<times> clock" where
  "on_failure cb clk =
     (let cb1 = cb\<lparr>cb_total_failures := cb_total_failures cb + 1,
                    failure_count := failure_count cb + 1, success_count := 0\<rparr>
      in case utcnow clk of
           (now, clk1) \<Rightarrow>
             (let cb2 = cb1\<lparr>last_failure_time := Some now\<rparr>
              in if cb_state cb2 = CLOSED then
                   (if failure_count cb2 \<ge> failure_threshold (cb_config cb2)
                    then transition_to_open cb2 clk1 else (cb2, clk1))
                 else if cb_state cb2 = HALF_OPEN then transition_to_open cb2 clk1
                 else (cb2, clk1)))"

text \<open>
  The \<open>try\<close> block of \<open>call\<close>: the wrapped function is invoked, and is given here by
  what this invocation does, return a result or raise.  An exception outside
  \<open>expected_exceptions\<close> leaves the breaker as it is.  The last component of the result
  tells whether the function was invoked.
\<close>

definition invoke ::
  "'x CircuitBreaker \<Rightarrow> clock \<Rightarrow> 'x + 'r \<Rightarrow>
   ('x breaker_error + 'r) \<times> 'x CircuitBreaker \<times> clock \<times> bool" where
  "invoke cb clk func =
     (case func of
        Inr result \<Rightarrow>
          (case on_success cb clk of (cb', clk') \<Rightarrow> (Inr result, cb', clk', True))
      | Inl e \<Rightarrow>
          if expected_exceptions (cb_config cb) e
          then (case on_failure cb clk of (cb', clk') \<Rightarrow> (Inl (Raised e), cb', clk', True))
          else (Inl (Raised e), cb, clk, True))"

definition call ::
  "'x CircuitBreaker \<Rightarrow> clock \<Rightarrow> 'x + 'r \<Rightarrow>
   ('x breaker_error + 'r) \<times> 'x CircuitBreaker \<times> clock \<times> bool" where
  "call cb clk func =
     (let cb1 = cb\<lparr>cb_total_calls := cb_total_calls cb + 1\<rparr>
      in if cb_state cb1 = OPEN then
           (case should_attempt_reset cb1 clk of
              (True, clk1) \<Rightarrow>
                (case transition_to_half_open cb1 clk1 of
                   (cb2, clk2) \<Rightarrow> invoke cb2 clk2 func)
            | (False, clk1) \<Rightarrow>
                (Inl (CircuitBreakerOpenError (cb_name cb1) (last_failure_time cb1)),
                 cb1\<lparr>cb_total_rejected := cb_total_rejected cb1 + 1\<rparr>, clk1, False))
         else invoke cb1 clk func)"

definition reset :: "'x CircuitBreaker \<Rightarrow> clock \<Rightarrow> 'x CircuitBreaker \<times> clock" where
  "reset cb clk = transition_to_closed cb clk"

text \<open>
  A sequence of calls on one breaker, each wrapped function given by its outcome: the
  breaker and the clock after the last of them.
\<close>

fun calls :: "'x CircuitBreaker \<Rightarrow> clock \<Rightarrow> ('x + 'r) list \<Rightarrow> 'x CircuitBreaker \<times> clock" where
  "calls cb clk [] = (cb, clk)"
| "calls cb clk (func # rest) =
     (case call cb clk func of (res, cb', clk', invoked_it) \<Rightarrow> calls cb' clk' rest)"

text \<open>
  What holds of a breaker in every state it can reach: an open breaker has recorded a
  failure time, a closed one has fewer consecutive failures than the threshold, and a
  half-open one no failure and fewer successes than the threshold.
\<close>

definition breaker_ok :: "'x CircuitBreaker \<Rightarrow> bool" where
  "breaker_ok cb =
     (0 < failure_threshold (cb_config cb) \<and> 0 < success_threshold (cb_config cb)
      \<and> 0 \<le> failure_count cb \<and> 0 \<le> success_count cb
      \<and> (case cb_state cb of
            OPEN \<Rightarrow> last_failure_time cb \<noteq> None \<and> success_count cb = 0
          | CLOSED \<Rightarrow> failure_count cb < failure_threshold (cb_config cb)
          | HALF_OPEN \<Rightarrow> failure_count cb = 0
                         \<and> success_count cb < success_threshold (cb_config cb)))"

section \<open>state/state.py and session/session.py\<close>

text \<open>\<open>s.startswith(p)\<close>.\<close>

definition startswith :: "string \<Rightarrow> string \<Rightarrow> bool" where
  "startswith s p = (take (length p) s = p)"
















section \<open>guardrails/guards.py (ToxicityGuard) and governance/safety.py (SafetyFilter)\<close>

text \<open>
  Strings are ASCII here.  \<open>str.lower\<close> maps the capital letters to the small ones,
  \<open>kw in s\<close> is the substring test, and \<open>str.split()\<close> without argument cuts at runs of
  whitespace and drops the empty pieces.
\<close>

definition lower_char :: "char \<Rightarrow> char" where
  "lower_char c =
     (case map_of (zip ''ABCDEFGHIJKLMNOPQRSTUVWXYZ'' ''abcdefghijklmnopqrstuvwxyz'') c of
        None \<Rightarrow> c | Some l \<Rightarrow> l)"

definition lower :: "string \<Rightarrow> string" where
  "lower s = map lower_char s"

fun str_contains :: "string \<Rightarrow> string \<Rightarrow> bool" where
  "str_contains [] kw = (kw = [])"
| "str_contains (c # cs) kw = (startswith (c # cs) kw \<or> str_contains cs kw)"

definition is_space :: "char \<Rightarrow> bool" where
  "is_space c =
     (c \<in> set [CHR 0x09, CHR 0x0A, CHR 0x0B, CHR 0x0C, CHR 0x0D,
                CHR 0x1C, CHR 0x1D, CHR 0x1E, CHR 0x1F, CHR 0x20])"

fun split_words :: "string \<Rightarrow> string \<Rightarrow> string list" where
  "split_words [] cur = (if cur = [] then [] else [cur])"
| "split_words (c # cs) cur =
     (if is_space c then (if cur = [] then split_words cs [] else cur # split_words cs [])
      else split_words cs (cur @ [c]))"

definition str_split :: "string \<Rightarrow> string list" where
  "str_split s = split_words s []"

datatype arith_error = ZeroDivisionError

text \<open>Python's \<open>a / b\<close> on integers; the quotient is a float there and a rational here.\<close>

definition true_div :: "nat \<Rightarrow> nat \<Rightarrow> arith_error + rat" where
  "true_div a b = (if b = 0 then Inl ZeroDivisionError else Inr (of_nat a / of_nat b))"

definition TOXIC_KEYWORDS :: "string list" where
  "TOXIC_KEYWORDS = [''hate'', ''kill'', ''violence'', ''attack'', ''harm'']"

record ToxicityGuard =
  tg_name :: string
  threshold :: rat

text \<open>\<open>self.threshold = self.config.get("threshold", 0.5)\<close>.\<close>

definition ToxicityGuard_init :: "string \<Rightarrow> rat option \<Rightarrow> ToxicityGuard" where
  "ToxicityGuard_init n configured =
     \<lparr>tg_name = n, threshold = (case configured of None \<Rightarrow> 1 / 2 | Some t \<Rightarrow> t)\<rparr>"

text \<open>\<open>sum(1 for keyword in self.TOXIC_KEYWORDS if keyword in content_lower)\<close>.\<close>

definition toxic_count :: "string \<Rightarrow> nat" where
  "toxic_count content =
     sum_list (map (\<lambda>keyword. 1) (filter (str_contains (lower content)) TOXIC_KEYWORDS))"

text \<open>\<open>toxic_count / len(content.split()) if content else 0\<close>.\<close>

definition toxicity_score :: "string \<Rightarrow> arith_error + rat" where
  "toxicity_score content =
     (if content \<noteq> [] then true_div (toxic_count content) (length (str_split content))
      else Inr 0)"

text \<open>
  \<open>ToxicityGuard.validate\<close>.  The result's metadata is the score under the key
  \<open>toxicity_score\<close>, or empty; \<open>fmt\<close> renders the score as \<open>{:.2f}\<close> does.
\<close>

definition toxicity_validate ::
  "ToxicityGuard \<Rightarrow> (rat \<Rightarrow> string) \<Rightarrow> string \<Rightarrow> arith_error + rat option GuardResult" where
  "toxicity_validate g fmt content =
     (case toxicity_score content of
        Inl err \<Rightarrow> Inl err
      | Inr score \<Rightarrow>
          if score > threshold g then
            Inr \<lparr>passed = False,
                 message = Some (''Toxic content detected (score: '' @ fmt score @ '')''),
                 metadata = Some score\<rparr>
          else Inr \<lparr>passed = True, message = None, metadata = None\<rparr>)"







section \<open>orchestration/workflow.py\<close>

datatype NodeType = AGENT | FUNCTION | CONDITION

text \<open>
  The workflow state is a dict from strings to values \<open>'v\<close>.  A handler is awaited on
  the state; it returns its result, or raises, and may have changed the state it was
  given.  An agent's \<open>execute\<close> also gets \<open>task = state.get("task", "")\<close>, here the
  entry under \<open>task\<close> if there is one.
\<close>

type_synonym 'v wf_state = "string \<rightharpoonup> 'v"

datatype 'v handler =
    AgentHandler "'v option \<Rightarrow> 'v wf_state \<Rightarrow> exn + 'v \<times> 'v wf_state"
  | FunctionHandler "'v wf_state \<Rightarrow> exn + 'v \<times> 'v wf_state"

record 'v WorkflowNode =
  node_name :: string
  node_type :: NodeType
  node_handler :: "'v handler"

record 'v Workflow =
  wf_name :: string
  nodes :: "string \<rightharpoonup> 'v WorkflowNode"
  edges :: "string \<rightharpoonup> string list"
  conditional_edges :: "string \<rightharpoonup> ('v wf_state \<Rightarrow> exn + string)"
  entry_point :: "string option"

datatype wf_error = WfValueError string | HandlerRaised exn

definition Workflow_init :: "string \<Rightarrow> 'v Workflow" where
  "Workflow_init n =
     \<lparr>wf_name = n, nodes = Map.empty, edges = Map.empty, conditional_edges = Map.empty,
      entry_point = None\<rparr>"

definition add_node :: "'v Workflow \<Rightarrow> string \<Rightarrow> 'v handler \<Rightarrow> NodeType \<Rightarrow> 'v Workflow" where
  "add_node flow n h t =
     flow\<lparr>nodes := (nodes flow)(n \<mapsto> \<lparr>node_name = n, node_type = t, node_handler = h\<rparr>)\<rparr>"

definition add_edge :: "'v Workflow \<Rightarrow> string \<Rightarrow> string \<Rightarrow> 'v Workflow" where
  "add_edge flow from_node to_node =
     (let es = (case edges flow from_node of None \<Rightarrow> [] | Some l \<Rightarrow> l)
      in flow\<lparr>edges := (edges flow)(from_node \<mapsto> es @ [to_node])\<rparr>)"

text \<open>
  The closure \<open>conditional_router\<close> that \<open>add_conditional_edge\<close> installs:
  \<open>edge_mapping.get(condition(state), "__end__")\<close>.
\<close>

definition conditional_router ::
  "('v wf_state \<Rightarrow> exn + string) \<Rightarrow> (string \<rightharpoonup> string) \<Rightarrow> 'v wf_state \<Rightarrow> exn + string" where
  "conditional_router condition edge_mapping st =
     (case condition st of
        Inl e \<Rightarrow> Inl e
      | Inr edge_key \<Rightarrow>
          Inr (case edge_mapping edge_key of None \<Rightarrow> ''__end__'' | Some target \<Rightarrow> target))"

definition add_conditional_edge ::
  "'v Workflow \<Rightarrow> string \<Rightarrow> ('v wf_state \<Rightarrow> exn + string) \<Rightarrow> (string \<rightharpoonup> string) \<Rightarrow>
   'v Workflow" where
  "add_conditional_edge flow from_node condition edge_mapping =
     flow\<lparr>conditional_edges :=
          (conditional_edges flow)(from_node \<mapsto> conditional_router condition edge_mapping)\<rparr>"

definition set_entry_point :: "'v Workflow \<Rightarrow> string \<Rightarrow> 'v Workflow" where
  "set_entry_point flow n = flow\<lparr>entry_point := Some n\<rparr>"

text \<open>
  "Execute handler": an agent node calls \<open>node.handler.execute\<close>, any other node calls
  the handler itself; a handler of the other kind has no such method, or is not callable.
\<close>

definition run_handler :: "'v WorkflowNode \<Rightarrow> 'v wf_state \<Rightarrow> exn + 'v \<times> 'v wf_state" where
  "run_handler node st =
     (if node_type node = AGENT then
        (case node_handler node of
           AgentHandler h \<Rightarrow> h (st ''task'') st
         | FunctionHandler f \<Rightarrow> Inl ''AttributeError'')
      else
        (case node_handler node of
           FunctionHandler f \<Rightarrow> f st
         | AgentHandler h \<Rightarrow> Inl ''TypeError''))"

text \<open>"Determine next node".\<close>

definition next_node :: "'v Workflow \<Rightarrow> string \<Rightarrow> 'v wf_state \<Rightarrow> exn + string" where
  "next_node flow current_node st =
     (case conditional_edges flow current_node of
        Some router \<Rightarrow> router st
      | None \<Rightarrow>
          (case edges flow current_node of
             Some next_nodes \<Rightarrow>
               Inr (case next_nodes of [] \<Rightarrow> ''__end__'' | n # rest \<Rightarrow> n)
           | None \<Rightarrow> Inr ''__end__''))"

text \<open>
  The loop \<open>while current_node != "__end__"\<close>, which need not end: the first argument
  bounds the number of nodes executed, and \<open>None\<close> means the bound was reached.  The
  result comes with the names of the nodes executed, in order.
\<close>

fun walk ::
  "nat \<Rightarrow> 'v Workflow \<Rightarrow> 'v wf_state \<Rightarrow> string \<Rightarrow> string list \<Rightarrow>
   ((wf_error + 'v wf_state) \<times> string list) option" where
  "walk 0 flow st current_node visited =
     (if current_node = ''__end__'' then Some (Inr st, visited) else None)"
| "walk (Suc fuel) flow st current_node visited =
     (if current_node = ''__end__'' then Some (Inr st, visited)
      else
        (case nodes flow current_node of
           None \<Rightarrow> Some (Inl (WfValueError (''Node '' @ current_node @ '' not found'')), visited)
         | Some node \<Rightarrow>
             (case run_handler node st of
                Inl e \<Rightarrow> Some (Inl (HandlerRaised e), visited @ [current_node])
              | Inr (result, st1) \<Rightarrow>
                  (let st2 = st1(''last_result'' \<mapsto> result,
                                 current_node @ ''_result'' \<mapsto> result)
                   in case next_node flow current_node st2 of
                        Inl e \<Rightarrow> Some (Inl (HandlerRaised e), visited @ [current_node])
                      | Inr nxt \<Rightarrow> walk fuel flow st2 nxt (visited @ [current_node])))))"

text \<open>
  \<open>Workflow.execute\<close>: \<open>if not self.entry_point\<close> holds of \<open>None\<close> and of the empty
  string; \<open>initial_state or {}\<close> is the empty dict for \<open>None\<close>.
\<close>

definition wf_execute ::
  "nat \<Rightarrow> 'v Workflow \<Rightarrow> 'v wf_state option \<Rightarrow>
   ((wf_error + 'v wf_state) \<times> string list) option" where
  "wf_execute fuel flow initial_state =
     (case entry_point flow of
        None \<Rightarrow> Some (Inl (WfValueError ''Entry point not set''), [])
      | Some ep \<Rightarrow>
          if ep = [] then Some (Inl (WfValueError ''Entry point not set''), [])
          else walk fuel flow (case initial_state of None \<Rightarrow> Map.empty | Some m \<Rightarrow> m) ep [])"

section \<open>Concrete instances used to exercise the models\<close>

definition always_fail :: "string \<Rightarrow> (unit, string, unit) guard" where
  "always_fail n = \<lparr>name = n,
      validate = (\<lambda>content ctx. Inr \<lparr>passed = False, message = Some (n @ '' rejects''), metadata = n\<rparr>)\<rparr>"


definition two_guard_engine :: "bool \<Rightarrow> (unit, string, unit) GuardrailEngine" where
  "two_guard_engine ff =
     register_output_guard
       (register_output_guard
          (GuardrailEngine_init (Some \<lparr>fail_fast = ff, log_violations = True\<rparr>))
          (always_fail ''toxicity''))
       (always_fail ''length'')"











text \<open>
  A breaker with thresholds three and two and a timeout of sixty seconds, under a clock
  that reads 0, 100, 200, \<dots> seconds, after a given history of calls.
\<close>

definition svc_cfg :: "string CircuitBreakerConfig" where
  "svc_cfg = \<lparr>failure_threshold = 3, success_threshold = 2, timeout_seconds = 60,
               expected_exceptions = (\<lambda>e. True)\<rparr>"

definition tick :: clock where
  "tick n = 100 * of_nat n"

definition svc_breaker :: "(string + nat) list \<Rightarrow> string CircuitBreaker" where
  "svc_breaker history =
     fst (calls (fst (CircuitBreaker_init ''svc'' svc_cfg tick))
            (snd (CircuitBreaker_init ''svc'' svc_cfg tick)) history)"


text \<open>A stand-in for the rendering of a score in a message.\<close>

definition two_places :: "rat \<Rightarrow> string" where
  "two_places q = ''?.??''"

section \<open>Theorems\<close>

lemmas breaker_defs = call_def invoke_def on_success_def on_failure_def
  transition_to_open_def transition_to_half_open_def transition_to_closed_def
  should_attempt_reset_def utcnow_def Let_def

lemma call_config:
  "call cb clk func = (res, cb', clk', iv) \<Longrightarrow>
   cb_config cb' = cb_config cb \<and> cb_name cb' = cb_name cb"
  by (auto simp: breaker_defs split: if_splits sum.splits option.splits bool.splits prod.splits)

lemma breaker_ok_call:
  "breaker_ok cb \<Longrightarrow> call cb clk func = (res, cb', clk', iv) \<Longrightarrow> breaker_ok cb'"
  by (auto simp: breaker_defs breaker_ok_def
           split: if_splits sum.splits option.splits bool.splits prod.splits CircuitState.splits)

lemma breaker_ok_init:
  "0 < failure_threshold cfg \<Longrightarrow> 0 < success_threshold cfg \<Longrightarrow>
   breaker_ok (fst (CircuitBreaker_init n cfg clk))"
  by (simp add: CircuitBreaker_init_def utcnow_def breaker_ok_def)

lemma init_config:
  "cb_config (fst (CircuitBreaker_init n cfg clk)) = cfg"
  "cb_name (fst (CircuitBreaker_init n cfg clk)) = n"
  by (simp_all add: CircuitBreaker_init_def utcnow_def)

lemma calls_invariant:
  "breaker_ok cb \<Longrightarrow> calls cb clk history = (cb', clk') \<Longrightarrow>
   breaker_ok cb' \<and> cb_config cb' = cb_config cb \<and> cb_name cb' = cb_name cb"
proof (induction history arbitrary: cb clk)
  case Nil
  then show ?case by simp
next
  case (Cons func rest)
  obtain res cb1 clk1 iv where c: "call cb clk func = (res, cb1, clk1, iv)"
    by (metis prod_cases4)
  with Cons.prems have "calls cb1 clk1 rest = (cb', clk')" by simp
  from Cons.IH [OF breaker_ok_call [OF Cons.prems(1) c] this] call_config [OF c]
  show ?case by simp
qed

lemma closed_failures:
  fixes cb :: "'x CircuitBreaker" and e1 e2 e3 :: 'x
  assumes "cb_state cb = CLOSED" "failure_count cb = 0"
    and "failure_threshold (cb_config cb) = 3"
    and "expected_exceptions (cb_config cb) e1" "expected_exceptions (cb_config cb) e2"
      "expected_exceptions (cb_config cb) e3"
  shows "cb_state (fst (calls cb clk [Inl e1 :: 'x + 'r])) = CLOSED"
    and "cb_state (fst (calls cb clk [Inl e1, Inl e2 :: 'x + 'r])) = CLOSED"
    and "cb_state (fst (calls cb clk [Inl e1, Inl e2, Inl e3 :: 'x + 'r])) = OPEN"
  using assms by (simp_all add: breaker_defs)

lemma closed_step:
  fixes cb :: "'x CircuitBreaker"
  assumes "cb_state cb = CLOSED"
  shows "expected_exceptions (cb_config cb) e \<Longrightarrow>
           call cb clk (Inl e :: 'x + 'r) = (res, cb', clk', iv) \<Longrightarrow>
           iv \<and> res = Inl (Raised e) \<and> failure_count cb' = failure_count cb + 1
           \<and> cb_state cb' = (if failure_threshold (cb_config cb) \<le> failure_count cb + 1
                              then OPEN else CLOSED)"
    and "call cb clk (Inr r :: 'x + 'r) = (res, cb', clk', iv) \<Longrightarrow>
           iv \<and> res = Inr r \<and> failure_count cb' = 0 \<and> cb_state cb' = CLOSED"
  using assms by (auto simp: breaker_defs)

lemma open_rejects:
  assumes "cb_state cb = OPEN" "last_failure_time cb = Some t"
    and "clk 0 - t < timeout_seconds (cb_config cb)"
  shows "call cb clk func =
     (Inl (CircuitBreakerOpenError (cb_name cb) (Some t)),
      cb\<lparr>cb_total_calls := cb_total_calls cb + 1,
         cb_total_rejected := cb_total_rejected cb + 1\<rparr>,
      (\<lambda>n. clk (Suc n)), False)"
  using assms by (simp add: breaker_defs)

lemma open_probes:
  assumes "cb_state cb = OPEN" "last_failure_time cb = Some t"
    and "timeout_seconds (cb_config cb) \<le> clk 0 - t"
    and "call cb clk func = (res, cb', clk', iv)"
  shows "iv \<and> res = (case func of Inl e \<Rightarrow> Inl (Raised e) | Inr r \<Rightarrow> Inr r)
    \<and> cb_state cb' =
        (case func of
           Inl e \<Rightarrow> if expected_exceptions (cb_config cb) e then OPEN else HALF_OPEN
         | Inr r \<Rightarrow> if success_threshold (cb_config cb) \<le> 1 then CLOSED else HALF_OPEN)"
  using assms by (auto simp: breaker_defs split: sum.splits)

lemma open_two_successes:
  fixes cb :: "'x CircuitBreaker"
  assumes "cb_state cb = OPEN" "last_failure_time cb = Some t"
    and "timeout_seconds (cb_config cb) \<le> clk 0 - t"
    and "success_threshold (cb_config cb) = 2"
  shows "cb_state (fst (calls cb clk [Inr r1 :: 'x + 'r])) = HALF_OPEN"
    and "cb_state (fst (calls cb clk [Inr r1, Inr r2 :: 'x + 'r])) = CLOSED"
  using assms by (simp_all add: breaker_defs)

lemma half_open_step:
  fixes cb :: "'x CircuitBreaker"
  assumes "cb_state cb = HALF_OPEN"
  shows "expected_exceptions (cb_config cb) e \<Longrightarrow>
           call cb clk (Inl e :: 'x + 'r) = (res, cb', clk', iv) \<Longrightarrow>
           iv \<and> res = Inl (Raised e) \<and> cb_state cb' = OPEN"
    and "call cb clk (Inr r :: 'x + 'r) = (res, cb', clk', iv) \<Longrightarrow>
           iv \<and> res = Inr r
           \<and> cb_state cb' = (if success_threshold (cb_config cb) \<le> success_count cb + 1
                              then CLOSED else HALF_OPEN)"
  using assms by (auto simp: breaker_defs)

lemma calls_single:
  "call cb clk func = (res, cb', clk', iv) \<Longrightarrow> fst (calls cb clk [func]) = cb'"
  by simp

text \<open>
  Claim C2.  A breaker with \<open>failure_threshold = 3\<close> and \<open>success_threshold = 2\<close>,
  in the state \<open>cb\<close> that any sequence of calls has left it in.
  Closed: it has fewer than three consecutive failures; a success resets the count; a
  failure opens it exactly when it is the third; so three failures in a row from a count
  of zero leave it closed, closed, and then open.
  Open: a failure time \<open>t\<close> is recorded; a call at a clock reading less than
  \<open>timeout_seconds\<close> after \<open>t\<close> is rejected with \<open>CircuitBreakerOpenError\<close>, the
  function is not invoked and the breaker stays open; a call at a later reading invokes
  the function with the breaker half-open, and two successes in a row close it.
  Half-open: one failure opens it again, and a success closes it once it is the second.
\<close>

theorem circuit_breaker_state_machine:
  fixes cfg :: "'x CircuitBreakerConfig" and history :: "('x + 'r) list"
  assumes ft: "failure_threshold cfg = 3" and st: "success_threshold cfg = 2"
    and reach: "calls (fst (CircuitBreaker_init n cfg clk0)) (snd (CircuitBreaker_init n cfg clk0))
                  history = (cb, clk1)"
  shows
   "(cb_state cb = CLOSED \<longrightarrow>
       failure_count cb < 3
       \<and> (\<forall>clk r. cb_state (fst (calls cb clk [Inr r :: 'x + 'r])) = CLOSED
                \<and> failure_count (fst (calls cb clk [Inr r :: 'x + 'r])) = 0)
       \<and> (\<forall>clk e. expected_exceptions cfg e \<longrightarrow>
             cb_state (fst (calls cb clk [Inl e :: 'x + 'r])) =
               (if 3 \<le> failure_count cb + 1 then OPEN else CLOSED))
       \<and> (failure_count cb = 0 \<longrightarrow>
            (\<forall>clk e1 e2 e3.
               expected_exceptions cfg e1 \<and> expected_exceptions cfg e2
                 \<and> expected_exceptions cfg e3 \<longrightarrow>
               cb_state (fst (calls cb clk [Inl e1 :: 'x + 'r])) = CLOSED
               \<and> cb_state (fst (calls cb clk [Inl e1, Inl e2 :: 'x + 'r])) = CLOSED
               \<and> cb_state (fst (calls cb clk [Inl e1, Inl e2, Inl e3 :: 'x + 'r])) = OPEN)))
    \<and> (cb_state cb = OPEN \<longrightarrow>
       (\<exists>t. last_failure_time cb = Some t
          \<and> (\<forall>clk func. clk 0 - t < timeout_seconds cfg \<longrightarrow>
                call cb clk (func :: 'x + 'r) =
                  (Inl (CircuitBreakerOpenError n (Some t)),
                   cb\<lparr>cb_total_calls := cb_total_calls cb + 1,
                      cb_total_rejected := cb_total_rejected cb + 1\<rparr>,
                   (\<lambda>i. clk (Suc i)), False))
          \<and> (\<forall>clk func. timeout_seconds cfg \<le> clk 0 - t \<longrightarrow>
                snd (snd (snd (call cb clk (func :: 'x + 'r))))
                \<and> fst (call cb clk func) =
                    (case func of Inl e \<Rightarrow> Inl (Raised e) | Inr r \<Rightarrow> Inr r)
                \<and> cb_state (fst (calls cb clk [func])) =
                    (case func of
                       Inl e \<Rightarrow> if expected_exceptions cfg e then OPEN else HALF_OPEN
                     | Inr r \<Rightarrow> HALF_OPEN))
          \<and> (\<forall>clk r1 r2. timeout_seconds cfg \<le> clk 0 - t \<longrightarrow>
                cb_state (fst (calls cb clk [Inr r1 :: 'x + 'r])) = HALF_OPEN
                \<and> cb_state (fst (calls cb clk [Inr r1, Inr r2 :: 'x + 'r])) = CLOSED)))
    \<and> (cb_state cb = HALF_OPEN \<longrightarrow>
       (success_count cb = 0 \<or> success_count cb = 1)
       \<and> (\<forall>clk e. expected_exceptions cfg e \<longrightarrow>
             cb_state (fst (calls cb clk [Inl e :: 'x + 'r])) = OPEN)
       \<and> (\<forall>clk r. cb_state (fst (calls cb clk [Inr r :: 'x + 'r])) =
             (if 2 \<le> success_count cb + 1 then CLOSED else HALF_OPEN)))"
proof -
  have "breaker_ok (fst (CircuitBreaker_init n cfg clk0))"
    using ft st by (intro breaker_ok_init) simp_all
  from calls_invariant [OF this reach]
  have ok: "breaker_ok cb" and cfg: "cb_config cb = cfg" and nm: "cb_name cb = n"
    by (simp_all add: init_config)
  have closed: "cb_state cb = CLOSED \<longrightarrow>
       failure_count cb < 3
       \<and> (\<forall>clk r. cb_state (fst (calls cb clk [Inr r :: 'x + 'r])) = CLOSED
                \<and> failure_count (fst (calls cb clk [Inr r :: 'x + 'r])) = 0)
       \<and> (\<forall>clk e. expected_exceptions cfg e \<longrightarrow>
             cb_state (fst (calls cb clk [Inl e :: 'x + 'r])) =
               (if 3 \<le> failure_count cb + 1 then OPEN else CLOSED))
       \<and> (failure_count cb = 0 \<longrightarrow>
            (\<forall>clk e1 e2 e3.
               expected_exceptions cfg e1 \<and> expected_exceptions cfg e2
                 \<and> expected_exceptions cfg e3 \<longrightarrow>
               cb_state (fst (calls cb clk [Inl e1 :: 'x + 'r])) = CLOSED
               \<and> cb_state (fst (calls cb clk [Inl e1, Inl e2 :: 'x + 'r])) = CLOSED
               \<and> cb_state (fst (calls cb clk [Inl e1, Inl e2, Inl e3 :: 'x + 'r])) = OPEN))"
  proof (intro impI)
    assume c: "cb_state cb = CLOSED"
    have 1: "failure_count cb < 3"
      using ok c ft cfg by (simp add: breaker_ok_def)
    have 2: "cb_state (fst (calls cb clk [Inr r :: 'x + 'r])) = CLOSED
                \<and> failure_count (fst (calls cb clk [Inr r :: 'x + 'r])) = 0" for clk r
    proof -
      obtain res cb' clk' iv where k: "call cb clk (Inr r :: 'x + 'r) = (res, cb', clk', iv)"
        by (metis prod_cases4)
      from closed_step(2) [OF c k] calls_single [OF k] show ?thesis by simp
    qed
    have 3: "cb_state (fst (calls cb clk [Inl e :: 'x + 'r])) =
               (if 3 \<le> failure_count cb + 1 then OPEN else CLOSED)"
      if "expected_exceptions cfg e" for clk e
    proof -
      obtain res cb' clk' iv where k: "call cb clk (Inl e :: 'x + 'r) = (res, cb', clk', iv)"
        by (metis prod_cases4)
      from that cfg have "expected_exceptions (cb_config cb) e" by simp
      from closed_step(1) [OF c this k] calls_single [OF k] ft cfg show ?thesis by simp
    qed
    have 4: "cb_state (fst (calls cb clk [Inl e1 :: 'x + 'r])) = CLOSED
               \<and> cb_state (fst (calls cb clk [Inl e1, Inl e2 :: 'x + 'r])) = CLOSED
               \<and> cb_state (fst (calls cb clk [Inl e1, Inl e2, Inl e3 :: 'x + 'r])) = OPEN"
      if "failure_count cb = 0" "expected_exceptions cfg e1" "expected_exceptions cfg e2"
        "expected_exceptions cfg e3" for clk e1 e2 e3
      using closed_failures [of cb e1 e2 e3 clk] that c ft cfg by simp
    from 1 2 3 4 show "failure_count cb < 3
       \<and> (\<forall>clk r. cb_state (fst (calls cb clk [Inr r :: 'x + 'r])) = CLOSED
                \<and> failure_count (fst (calls cb clk [Inr r :: 'x + 'r])) = 0)
       \<and> (\<forall>clk e. expected_exceptions cfg e \<longrightarrow>
             cb_state (fst (calls cb clk [Inl e :: 'x + 'r])) =
               (if 3 \<le> failure_count cb + 1 then OPEN else CLOSED))
       \<and> (failure_count cb = 0 \<longrightarrow>
            (\<forall>clk e1 e2 e3.
               expected_exceptions cfg e1 \<and> expected_exceptions cfg e2
                 \<and> expected_exceptions cfg e3 \<longrightarrow>
               cb_state (fst (calls cb clk [Inl e1 :: 'x + 'r])) = CLOSED
               \<and> cb_state (fst (calls cb clk [Inl e1, Inl e2 :: 'x + 'r])) = CLOSED
               \<and> cb_state (fst (calls cb clk [Inl e1, Inl e2, Inl e3 :: 'x + 'r])) = OPEN))" by blast
  qed
  have opened: "cb_state cb = OPEN \<longrightarrow>
       (\<exists>t. last_failure_time cb = Some t
          \<and> (\<forall>clk func. clk 0 - t < timeout_seconds cfg \<longrightarrow>
                call cb clk (func :: 'x + 'r) =
                  (Inl (CircuitBreakerOpenError n (Some t)),
                   cb\<lparr>cb_total_calls := cb_total_calls cb + 1,
                      cb_total_rejected := cb_total_rejected cb + 1\<rparr>,
                   (\<lambda>i. clk (Suc i)), False))
          \<and> (\<forall>clk func. timeout_seconds cfg \<le> clk 0 - t \<longrightarrow>
                snd (snd (snd (call cb clk (func :: 'x + 'r))))
                \<and> fst (call cb clk func) =
                    (case func of Inl e \<Rightarrow> Inl (Raised e) | Inr r \<Rightarrow> Inr r)
                \<and> cb_state (fst (calls cb clk [func])) =
                    (case func of
                       Inl e \<Rightarrow> if expected_exceptions cfg e then OPEN else HALF_OPEN
                     | Inr r \<Rightarrow> HALF_OPEN))
          \<and> (\<forall>clk r1 r2. timeout_seconds cfg \<le> clk 0 - t \<longrightarrow>
                cb_state (fst (calls cb clk [Inr r1 :: 'x + 'r])) = HALF_OPEN
                \<and> cb_state (fst (calls cb clk [Inr r1, Inr r2 :: 'x + 'r])) = CLOSED))"
  proof (intro impI)
    assume c: "cb_state cb = OPEN"
    from ok c obtain t where t: "last_failure_time cb = Some t"
      by (auto simp: breaker_ok_def)
    have 1: "call cb clk (func :: 'x + 'r) =
                  (Inl (CircuitBreakerOpenError n (Some t)),
                   cb\<lparr>cb_total_calls := cb_total_calls cb + 1,
                      cb_total_rejected := cb_total_rejected cb + 1\<rparr>,
                   (\<lambda>i. clk (Suc i)), False)"
      if "clk 0 - t < timeout_seconds cfg" for clk func
      using open_rejects [OF c t, of clk func] that cfg nm by simp
    have 2: "snd (snd (snd (call cb clk (func :: 'x + 'r))))
                \<and> fst (call cb clk func) =
                    (case func of Inl e \<Rightarrow> Inl (Raised e) | Inr r \<Rightarrow> Inr r)
                \<and> cb_state (fst (calls cb clk [func])) =
                    (case func of
                       Inl e \<Rightarrow> if expected_exceptions cfg e then OPEN else HALF_OPEN
                     | Inr r \<Rightarrow> HALF_OPEN)"
      if "timeout_seconds cfg \<le> clk 0 - t" for clk func
    proof -
      obtain res cb' clk' iv where k: "call cb clk func = (res, cb', clk', iv)"
        by (metis prod_cases4)
      from that cfg have "timeout_seconds (cb_config cb) \<le> clk 0 - t" by simp
      from open_probes [OF c t this k] calls_single [OF k] k st cfg show ?thesis
        by (simp split: sum.splits)
    qed
    have 3: "cb_state (fst (calls cb clk [Inr r1 :: 'x + 'r])) = HALF_OPEN
                \<and> cb_state (fst (calls cb clk [Inr r1, Inr r2 :: 'x + 'r])) = CLOSED"
      if "timeout_seconds cfg \<le> clk 0 - t" for clk r1 r2
      using open_two_successes(1) [OF c t, of clk r1] open_two_successes(2) [OF c t, of clk r1 r2]
        that cfg st by simp
    from t 1 2 3 show "(\<exists>t. last_failure_time cb = Some t
          \<and> (\<forall>clk func. clk 0 - t < timeout_seconds cfg \<longrightarrow>
                call cb clk (func :: 'x + 'r) =
                  (Inl (CircuitBreakerOpenError n (Some t)),
                   cb\<lparr>cb_total_calls := cb_total_calls cb + 1,
                      cb_total_rejected := cb_total_rejected cb + 1\<rparr>,
                   (\<lambda>i. clk (Suc i)), False))
          \<and> (\<forall>clk func. timeout_seconds cfg \<le> clk 0 - t \<longrightarrow>
                snd (snd (snd (call cb clk (func :: 'x + 'r))))
                \<and> fst (call cb clk func) =
                    (case func of Inl e \<Rightarrow> Inl (Raised e) | Inr r \<Rightarrow> Inr r)
                \<and> cb_state (fst (calls cb clk [func])) =
                    (case func of
                       Inl e \<Rightarrow> if expected_exceptions cfg e then OPEN else HALF_OPEN
                     | Inr r \<Rightarrow> HALF_OPEN))
          \<and> (\<forall>clk r1 r2. timeout_seconds cfg \<le> clk 0 - t \<longrightarrow>
                cb_state (fst (calls cb clk [Inr r1 :: 'x + 'r])) = HALF_OPEN
                \<and> cb_state (fst (calls cb clk [Inr r1, Inr r2 :: 'x + 'r])) = CLOSED))" by blast
  qed
  have half: "cb_state cb = HALF_OPEN \<longrightarrow>
       (success_count cb = 0 \<or> success_count cb = 1)
       \<and> (\<forall>clk e. expected_exceptions cfg e \<longrightarrow>
             cb_state (fst (calls cb clk [Inl e :: 'x + 'r])) = OPEN)
       \<and> (\<forall>clk r. cb_state (fst (calls cb clk [Inr r :: 'x + 'r])) =
             (if 2 \<le> success_count cb + 1 then CLOSED else HALF_OPEN))"
  proof (intro impI)
    assume c: "cb_state cb = HALF_OPEN"
    have 1: "success_count cb = 0 \<or> success_count cb = 1"
      using ok c st cfg by (auto simp: breaker_ok_def)
    have 2: "cb_state (fst (calls cb clk [Inl e :: 'x + 'r])) = OPEN"
      if "expected_exceptions cfg e" for clk e
    proof -
      obtain res cb' clk' iv where k: "call cb clk (Inl e :: 'x + 'r) = (res, cb', clk', iv)"
        by (metis prod_cases4)
      from that cfg have "expected_exceptions (cb_config cb) e" by simp
      from half_open_step(1) [OF c this k] calls_single [OF k] show ?thesis by simp
    qed
    have 3: "cb_state (fst (calls cb clk [Inr r :: 'x + 'r])) =
             (if 2 \<le> success_count cb + 1 then CLOSED else HALF_OPEN)" for clk r
    proof -
      obtain res cb' clk' iv where k: "call cb clk (Inr r :: 'x + 'r) = (res, cb', clk', iv)"
        by (metis prod_cases4)
      from half_open_step(2) [OF c k] calls_single [OF k] st cfg show ?thesis by simp
    qed
    from 1 2 3 show "(success_count cb = 0 \<or> success_count cb = 1)
       \<and> (\<forall>clk e. expected_exceptions cfg e \<longrightarrow>
             cb_state (fst (calls cb clk [Inl e :: 'x + 'r])) = OPEN)
       \<and> (\<forall>clk r. cb_state (fst (calls cb clk [Inr r :: 'x + 'r])) =
             (if 2 \<le> success_count cb + 1 then CLOSED else HALF_OPEN))" by blast
  qed
  from closed opened half show ?thesis
    by (intro conjI)
qed

lemmas svc_eval = svc_breaker_def svc_cfg_def tick_def CircuitBreaker_init_def breaker_defs

lemma svc_states:
  "cb_state (svc_breaker []) = CLOSED" "failure_count (svc_breaker []) = 0"
  "cb_state (svc_breaker [Inl ''down'', Inl ''down'', Inl ''down'']) = OPEN"
  "last_failure_time (svc_breaker [Inl ''down'', Inl ''down'', Inl ''down'']) = Some 300"
  by (simp_all add: svc_eval)

lemma svc_half_open:
  "cb_state (svc_breaker [Inl ''down'', Inl ''down'', Inl ''down'', Inr 7]) = HALF_OPEN"
  by (simp add: svc_eval)

theorem circuit_breaker_state_machine_witness:
  "cb_state (svc_breaker []) = CLOSED
   \<and> cb_state (fst (calls (svc_breaker []) tick [Inl ''down'', Inl ''down'' :: string + nat])) = CLOSED
   \<and> cb_state (fst (calls (svc_breaker []) tick [Inl ''down'', Inl ''down'', Inl ''down'' :: string + nat])) = OPEN
   \<and> cb_state (svc_breaker [Inl ''down'', Inl ''down'', Inl ''down'']) = OPEN
   \<and> fst (call (svc_breaker [Inl ''down'', Inl ''down'', Inl ''down'']) (\<lambda>i. 310) (Inr 7 :: string + nat)) =
       Inl (CircuitBreakerOpenError ''svc'' (Some 300))
   \<and> snd (snd (snd (call (svc_breaker [Inl ''down'', Inl ''down'', Inl ''down''])
                        (\<lambda>i. 310) (Inr 7 :: string + nat)))) = False
   \<and> snd (snd (snd (call (svc_breaker [Inl ''down'', Inl ''down'', Inl ''down''])
                        (\<lambda>i. 360) (Inr 7 :: string + nat))))
   \<and> cb_state (fst (calls (svc_breaker [Inl ''down'', Inl ''down'', Inl ''down''])
                      (\<lambda>i. 360) [Inr 7, Inr 8 :: string + nat])) = CLOSED
   \<and> cb_state (svc_breaker [Inl ''down'', Inl ''down'', Inl ''down'', Inr 7]) = HALF_OPEN
   \<and> cb_state (fst (calls (svc_breaker [Inl ''down'', Inl ''down'', Inl ''down'', Inr 7])
                      tick [Inl ''down'' :: string + nat])) = OPEN"
proof -
  have ft: "failure_threshold svc_cfg = 3" and st: "success_threshold svc_cfg = 2"
    and ex: "expected_exceptions svc_cfg e" and to: "timeout_seconds svc_cfg = 60" for e
    by (simp_all add: svc_cfg_def)
  have reach: "calls (fst (CircuitBreaker_init ''svc'' svc_cfg tick))
                 (snd (CircuitBreaker_init ''svc'' svc_cfg tick)) history =
               (svc_breaker history,
                snd (calls (fst (CircuitBreaker_init ''svc'' svc_cfg tick))
                       (snd (CircuitBreaker_init ''svc'' svc_cfg tick)) history))" for history
    by (simp add: svc_breaker_def)
  note closed = circuit_breaker_state_machine [OF ft st reach [of "[]"]]
  note opened = circuit_breaker_state_machine
    [OF ft st reach [of "[Inl ''down'', Inl ''down'', Inl ''down'']"]]
  note half = circuit_breaker_state_machine
    [OF ft st reach [of "[Inl ''down'', Inl ''down'', Inl ''down'', Inr 7]"]]
  have c: "cb_state (fst (calls (svc_breaker []) tick [Inl ''down'', Inl ''down'' :: string + nat])) = CLOSED
     \<and> cb_state (fst (calls (svc_breaker []) tick [Inl ''down'', Inl ''down'', Inl ''down'' :: string + nat])) = OPEN"
    using closed svc_states(1,2) ex by (simp del: calls.simps)
  have rej: "call (svc_breaker [Inl ''down'', Inl ''down'', Inl ''down'']) (\<lambda>i. 310) (Inr 7 :: string + nat) =
      (Inl (CircuitBreakerOpenError ''svc'' (Some 300)),
       (svc_breaker [Inl ''down'', Inl ''down'', Inl ''down''])
         \<lparr>cb_total_calls := cb_total_calls (svc_breaker [Inl ''down'', Inl ''down'', Inl ''down'']) + 1,
          cb_total_rejected := cb_total_rejected (svc_breaker [Inl ''down'', Inl ''down'', Inl ''down'']) + 1\<rparr>,
       (\<lambda>i. 310), False)"
    using opened svc_states(3,4) by (auto simp: to)
  have probe: "snd (snd (snd (call (svc_breaker [Inl ''down'', Inl ''down'', Inl ''down''])
                        (\<lambda>i. 360) (Inr 7 :: string + nat))))
      \<and> cb_state (fst (calls (svc_breaker [Inl ''down'', Inl ''down'', Inl ''down''])
                      (\<lambda>i. 360) [Inr 7, Inr 8 :: string + nat])) = CLOSED"
    using opened svc_states(3,4) by (auto simp: to simp del: calls.simps)
  have h: "cb_state (fst (calls (svc_breaker [Inl ''down'', Inl ''down'', Inl ''down'', Inr 7])
                      tick [Inl ''down'' :: string + nat])) = OPEN"
    using half svc_half_open ex by (simp del: calls.simps)
  show ?thesis
    using c rej probe h svc_states(1,3) svc_half_open by (simp del: calls.simps)
qed




lemma guard_loop_all_pass:
  "\<forall>g\<in>set gs. \<exists>r. validate g content ctx = Inr r \<and> passed r \<Longrightarrow>
   guard_loop e gs content ctx vs =
     (Inr vs, e\<lparr>validate_log := validate_log e @ map name gs\<rparr>)"
  by (induction gs arbitrary: e) (auto simp: Let_def)

lemma run_guards_all_pass:
  "\<forall>g\<in>set gs. \<exists>r. validate g content ctx = Inr r \<and> passed r \<Longrightarrow>
   run_guards e gs content ctx =
     (Inr content, e\<lparr>total_validations := total_validations e + 1,
                      validate_log := validate_log e @ map name gs\<rparr>)"
  by (simp add: run_guards_def guard_loop_all_pass)

lemma str_nat_2: "str_nat (Suc (Suc 0)) = ''2''"
  by (simp add: str_nat.simps)

lemma two_registered:
  "output_guards e0 = [] \<Longrightarrow> name g1 \<noteq> name g2 \<Longrightarrow>
   output_guards (register_output_guard (register_output_guard e0 g1) g2) = [(name g1, g1), (name g2, g2)]"
  by (simp add: register_output_guard_def)






lemma validate_with_all_pass:
  fixes e :: "('c, 'm, 'x) GuardrailEngine"
  assumes "(select_guards d names :: ('m, 'x) engine_error + ('c, 'm, 'x) guard list) = Inr gs"
    and "\<forall>g\<in>set gs. \<exists>r. validate g content ctx = Inr r \<and> passed r"
  shows "fst (validate_with d e content names ctx) = Inr content"
  using assms by (simp add: validate_with_def run_guards_all_pass)

text \<open>
  Claim C4.  An engine whose output group holds exactly the two guards \<open>g1\<close> and
  \<open>g2\<close>, registered in this order, both failing on the content.  Fail-fast is the
  default configuration.  In fail-fast mode \<open>validate_output\<close> raises the violation of
  \<open>g1\<close> alone (its name, its message or the default text when it has none, its
  metadata) and only \<open>g1\<close> has been evaluated.  With fail-fast off both guards are
  evaluated and one violation named \<open>multiple\<close> is raised that embeds both.  And
  whenever every selected guard passes, the content is returned unchanged.
\<close>

theorem fail_fast_and_aggregate:
  fixes e0 :: "('c, 'm, 'x) GuardrailEngine"
  assumes fresh: "output_guards e0 = []"
    and distinct: "name g1 \<noteq> name g2"
    and e: "e = register_output_guard (register_output_guard e0 g1) g2"
    and g1: "validate g1 content ctx = Inr r1" "\<not> passed r1"
    and g2: "validate g2 content ctx = Inr r2" "\<not> passed r2"
  shows
   "fail_fast (config (GuardrailEngine_init None :: ('c, 'm, 'x) GuardrailEngine))
    \<and> (fail_fast (config e) \<longrightarrow>
         validate_output e content None ctx =
           (Inl (GuardrailViolation (name g1) (message_or_default (message r1)) (Own (metadata r1))),
            e\<lparr>total_validations := total_validations e + 1,
              total_violations := total_violations e + 1,
              validate_log := validate_log e @ [name g1]\<rparr>))
    \<and> (\<not> fail_fast (config e) \<longrightarrow>
         validate_output e content None ctx =
           (Inl (GuardrailViolation ''multiple'' ''2 guard(s) failed''
                  (Violations [(name g1, message_or_default (message r1), metadata r1),
                               (name g2, message_or_default (message r2), metadata r2)])),
            e\<lparr>total_validations := total_validations e + 1,
              total_violations := total_violations e + 2,
              validate_log := validate_log e @ [name g1, name g2]\<rparr>))
    \<and> (\<forall>names gs.
          (select_guards (output_guards e) names :: ('m, 'x) engine_error + ('c, 'm, 'x) guard list) = Inr gs \<longrightarrow>
          (\<forall>g\<in>set gs. \<exists>r. validate g c' ctx = Inr r \<and> passed r) \<longrightarrow>
          fst (validate_output e c' names ctx) = Inr c')"
proof (intro conjI impI allI)
  show "fail_fast (config (GuardrailEngine_init None :: ('c, 'm, 'x) GuardrailEngine))"
    by (simp add: GuardrailEngine_init_def GuardrailConfig_default_def)
next
  have sel: "(select_guards (output_guards e) None :: ('m, 'x) engine_error + ('c, 'm, 'x) guard list) = Inr [g1, g2]"
    using fresh distinct e by (simp add: select_guards_def dict_values_def two_registered)
  {
    assume "fail_fast (config e)"
    then show "validate_output e content None ctx =
           (Inl (GuardrailViolation (name g1) (message_or_default (message r1)) (Own (metadata r1))),
            e\<lparr>total_validations := total_validations e + 1,
              total_violations := total_violations e + 1,
              validate_log := validate_log e @ [name g1]\<rparr>)"
      using sel g1 by (simp add: validate_output_def validate_with_def run_guards_def Let_def)
  }
  {
    assume "\<not> fail_fast (config e)"
    then show "validate_output e content None ctx =
           (Inl (GuardrailViolation ''multiple'' ''2 guard(s) failed''
                  (Violations [(name g1, message_or_default (message r1), metadata r1),
                               (name g2, message_or_default (message r2), metadata r2)])),
            e\<lparr>total_validations := total_validations e + 1,
              total_violations := total_violations e + 2,
              validate_log := validate_log e @ [name g1, name g2]\<rparr>)"
      using sel g1 g2
      by (simp add: validate_output_def validate_with_def run_guards_def Let_def str_nat_2)
  }
next
  fix names gs
  assume "(select_guards (output_guards e) names :: ('m, 'x) engine_error + ('c, 'm, 'x) guard list) = Inr gs"
    and "\<forall>g\<in>set gs. \<exists>r. validate g c' ctx = Inr r \<and> passed r"
  then show "fst (validate_output e c' names ctx) = Inr c'"
    unfolding validate_output_def by (rule validate_with_all_pass)
qed

theorem fail_fast_and_aggregate_witness:
  "fst (validate_output (two_guard_engine True) ''some text'' None ()) =
     Inl (GuardrailViolation ''toxicity'' ''toxicity rejects'' (Own ''toxicity''))
   \<and> validate_log (snd (validate_output (two_guard_engine True) ''some text'' None ())) =
       [''toxicity'']
   \<and> fst (validate_output (two_guard_engine False) ''some text'' None ()) =
     Inl (GuardrailViolation ''multiple'' ''2 guard(s) failed''
            (Violations [(''toxicity'', ''toxicity rejects'', ''toxicity''),
                         (''length'', ''length rejects'', ''length'')]))
   \<and> validate_log (snd (validate_output (two_guard_engine False) ''some text'' None ())) =
       [''toxicity'', ''length'']
   \<and> fst (validate_output (two_guard_engine True) ''some text'' (Some [''absent'']) ()) =
       Inr ''some text''"
proof -
  let ?r = "\<lambda>n. \<lparr>passed = False, message = Some (n @ '' rejects''), metadata = n\<rparr>"
  have sel: "(select_guards (output_guards (two_guard_engine True)) (Some [''absent''])
               :: (string, unit) engine_error + (unit, string, unit) guard list) = Inr []"
    by (simp add: two_guard_engine_def register_output_guard_def GuardrailEngine_init_def
          always_fail_def select_guards_def dict_contains_def)
  have t: "fail_fast (config (two_guard_engine True))"
    and f: "\<not> fail_fast (config (two_guard_engine False))"
    and lg: "validate_log (two_guard_engine True) = []" "validate_log (two_guard_engine False) = []"
    by (simp_all add: two_guard_engine_def register_output_guard_def GuardrailEngine_init_def)
  note a = fail_fast_and_aggregate
    [of "GuardrailEngine_init (Some \<lparr>fail_fast = True, log_violations = True\<rparr>)"
        "always_fail ''toxicity''" "always_fail ''length''" "two_guard_engine True"
        "''some text''" "()" "?r ''toxicity''" "?r ''length''" "''some text''"]
  note b = fail_fast_and_aggregate
    [of "GuardrailEngine_init (Some \<lparr>fail_fast = False, log_violations = True\<rparr>)"
        "always_fail ''toxicity''" "always_fail ''length''" "two_guard_engine False"
        "''some text''" "()" "?r ''toxicity''" "?r ''length''" "''some text''"]
  have a': "validate_output (two_guard_engine True) ''some text'' None () =
           (Inl (GuardrailViolation ''toxicity'' ''toxicity rejects'' (Own ''toxicity'')),
            (two_guard_engine True)\<lparr>total_validations := total_validations (two_guard_engine True) + 1,
              total_violations := total_violations (two_guard_engine True) + 1,
              validate_log := validate_log (two_guard_engine True) @ [''toxicity'']\<rparr>)"
    and a'': "fst (validate_output (two_guard_engine True) ''some text'' (Some [''absent'']) ()) =
       Inr ''some text''"
    using a t sel
    by (simp_all add: two_guard_engine_def GuardrailEngine_init_def always_fail_def
          message_or_default_def)
  have b': "validate_output (two_guard_engine False) ''some text'' None () =
           (Inl (GuardrailViolation ''multiple'' ''2 guard(s) failed''
            (Violations [(''toxicity'', ''toxicity rejects'', ''toxicity''),
                         (''length'', ''length rejects'', ''length'')])),
            (two_guard_engine False)\<lparr>total_validations := total_validations (two_guard_engine False) + 1,
              total_violations := total_violations (two_guard_engine False) + 2,
              validate_log := validate_log (two_guard_engine False) @ [''toxicity'', ''length'']\<rparr>)"
    using b f
    by (simp add: two_guard_engine_def GuardrailEngine_init_def always_fail_def
          message_or_default_def)
  show ?thesis
    by (simp add: a' a'' b' lg)
qed








lemma saga_status_set_step [simp]: "saga_status (set_step sg i f) = saga_status sg"
  by (simp add: set_step_def)




























lemmas text_eval = toxicity_score_def toxic_count_def TOXIC_KEYWORDS_def lower_def
  lower_char_def startswith_def true_div_def str_split_def is_space_def




text \<open>
  Claim C9 does not hold of the code: the guard \<open>if content\<close> covers the empty string
  only, and a content of blanks has no word, so the division raises.
\<close>

theorem blank_content_divides_by_zero:
  "toxicity_validate (ToxicityGuard_init ''toxicity'' None) two_places ''   '' =
     Inl ZeroDivisionError
   \<and> str_split ''   '' = []"
  by (simp add: text_eval toxicity_validate_def ToxicityGuard_init_def)


end
